theory Spec2Isabelle
  imports Main "HOL-Library.Sublist"
begin

section \<open>The streaming chat hook of the computer-use demo front-end\<close>

text \<open>
  This theory embeds \<^verbatim>\<open>frontend/src/hooks/useChat.ts\<close>: the React hook that sends one
  chat turn to \<^verbatim>\<open>POST /api/chat/stream\<close>, reads the server-sent event stream chunk by
  chunk, and folds the events into the transcript, the exchange log and the conversation
  history.

  Conventions of the embedding.
  \<^item> A JavaScript string is a \<^typ>\<open>string\<close>; one \<^typ>\<open>char\<close> stands for one character
    of the text (the model covers text whose characters fit a \<^typ>\<open>char\<close>).
  \<^item> \<^verbatim>\<open>undefined\<close> is \<open>None\<close> of an option type; a value read out of a parsed payload is
    a \<open>json option\<close>, because the hook casts the payload to its event interface without
    checking the fields.
  \<^item> \<^verbatim>\<open>JSON.parse\<close>, \<^verbatim>\<open>fetch\<close>, the clock and the random generator belong to the
    platform. They are parameters of the model: \<open>parse\<close> (\<open>None\<close> is the SyntaxError),
    \<open>fetch\<close> (the answer of the network to a request body), and \<open>env\<close> (the identifier
    and the time stamp handed out at the n-th draw).
  \<^item> React state setters are modelled by explicit state passing; the state record holds
    the four \<^verbatim>\<open>useState\<close> cells, the \<^verbatim>\<open>useRef\<close> cell, the console and the number of
    draws made from \<open>env\<close> so far. \<^verbatim>\<open>sendMessage\<close> reads the history of the render that
    created it; the model hands it the current state, that is, one call runs at a time
    and the component has rendered since the last one.
  \<^item> A function that may not return has an option result, \<open>None\<close> being "does not return".
\<close>

subsection \<open>Data model (\<^verbatim>\<open>types.ts\<close>)\<close>

datatype json =
    JNull
  | JBool bool
  | JNum int
  | JStr string
  | JArr "json list"
  | JObj "(string \<times> json) list"

text \<open>
  Numbers are carried opaquely, as integers (the hook never computes with a number, in a
  payload or in the configuration). An object is the list of its properties as
  \<^verbatim>\<open>JSON.parse\<close> leaves them; \<open>map_of\<close> reads a property.
\<close>

type_synonym obj = "(string \<times> json) list"
type_synonym field = "json option"

datatype Role = User | Assistant | Tool

datatype DisplayContent =
    Text field
  | Thinking field
  | ToolUse field field field
  | ToolResult field field field field
  | Error field

record DisplayMessage =
  msg_id :: string
  msg_role :: Role
  msg_content :: DisplayContent
  msg_timestamp :: nat

record HttpLogEntry =
  log_id :: string
  log_timestamp :: nat
  log_request :: field
  log_response :: field
  log_error :: field

datatype Provider = Anthropic | Bedrock | Vertex

record AppConfig =
  provider :: Provider
  apiKey :: string
  model :: string
  systemPromptSuffix :: string
  onlyNMostRecentImages :: int
  maxTokens :: int
  toolVersion :: string
  thinkingEnabled :: bool
  thinkingBudget :: int
  hideImages :: bool
  tokenEfficientToolsBeta :: bool

text \<open>
  The events of the wire. Each branch of the hook casts the parsed payload to one of the
  \<^verbatim>\<open>SSE...Event\<close> interfaces; the constructor carries the payload so cast. \<open>NoEvent\<close> is
  the payload that falls through every branch.
\<close>

datatype sse_event =
    SSEMessageEvent obj
  | SSEThinkingEvent obj
  | SSEToolUseEvent obj
  | SSEToolResultEvent obj
  | SSEHttpLogEvent obj
  | SSEErrorEvent obj
  | SSEDoneEvent obj
  | NoEvent

text \<open>
  The faults the language itself raises in the hook: \<^verbatim>\<open>JSON.parse\<close> on text that is
  not JSON, and \<^verbatim>\<open>in\<close> or a spread applied to a value that does not support it.
\<close>

datatype fault = SyntaxError | TypeError

text \<open>A thrown \<^verbatim>\<open>Error\<close> as the outer \<^verbatim>\<open>catch\<close> reads it: its name and its message.\<close>

record js_error =
  err_name :: string
  err_message :: string

subsection \<open>The hook's state\<close>

record state =
  displayMessages :: "DisplayMessage list"
  chatHistory :: field
  httpLogs :: "HttpLogEntry list"
  isStreaming :: bool
  abortController :: "bool option"
  console :: "(string \<times> string) list"
  draws :: nat

text \<open>
  \<open>abortController\<close> is \<^verbatim>\<open>abortControllerRef.current\<close>: \<open>None\<close> is \<^verbatim>\<open>null\<close>,
  \<open>Some b\<close> a controller whose signal is aborted iff \<open>b\<close>. \<open>chatHistory\<close> is a value
  as it came off the wire, not a list: the done branch stores \<^verbatim>\<open>event.messages\<close>
  unchecked.
\<close>

type_synonym env = "nat \<Rightarrow> string \<times> nat"

definition initial_state :: state where
  "initial_state =
     \<lparr>displayMessages = [], chatHistory = Some (JArr []), httpLogs = [], isStreaming = False,
      abortController = None, console = [], draws = 0\<rparr>"

definition addDisplayMessage :: "env \<Rightarrow> state \<Rightarrow> Role \<Rightarrow> DisplayContent \<Rightarrow> state" where
  "addDisplayMessage env st r c =
     st\<lparr>displayMessages := displayMessages st @
           [\<lparr>msg_id = fst (env (draws st)), msg_role = r, msg_content = c,
             msg_timestamp = snd (env (draws st))\<rparr>],
        draws := Suc (draws st)\<rparr>"

definition addHttpLog :: "env \<Rightarrow> state \<Rightarrow> obj \<Rightarrow> state" where
  "addHttpLog env st d =
     st\<lparr>httpLogs := httpLogs st @
           [\<lparr>log_id = fst (env (draws st)), log_timestamp = snd (env (draws st)),
             log_request = map_of d ''request'', log_response = map_of d ''response'',
             log_error = map_of d ''error''\<rparr>],
        draws := Suc (draws st)\<rparr>"

subsection \<open>Decoding one parsed payload (\<^verbatim>\<open>useChat.ts\<close>, the chain of lines 128 to 167)\<close>

text \<open>
  \<^verbatim>\<open>k in v\<close> raises a TypeError when \<open>v\<close> is not an object. None of the property names
  the chain asks for is an inherited property, an index or \<^verbatim>\<open>length\<close>, so on an array
  every test is false, and on an object the test is membership among its own keys.
  The fifth test evaluates \<^verbatim>\<open>'method' in parsed.request\<close> once \<^verbatim>\<open>request\<close> is a key,
  and so raises when that property holds a primitive value (\<open>request_has_method\<close>).
\<close>

definition has_key :: "string \<Rightarrow> obj \<Rightarrow> bool" where
  "has_key k d = (map_of d k \<noteq> None)"

definition request_has_method :: "obj \<Rightarrow> fault + bool" where
  "request_has_method d =
     (case map_of d ''request'' of
        None \<Rightarrow> Inr False
      | Some (JObj r) \<Rightarrow> Inr (has_key ''method'' r)
      | Some (JArr r) \<Rightarrow> Inr False
      | Some _ \<Rightarrow> Inl TypeError)"

definition decode_object :: "obj \<Rightarrow> fault + sse_event" where
  "decode_object d =
     (if has_key ''text'' d \<and> map_of d ''type'' = Some (JStr ''text'') then Inr (SSEMessageEvent d)
      else if has_key ''thinking'' d then Inr (SSEThinkingEvent d)
      else if has_key ''name'' d \<and> has_key ''input'' d then Inr (SSEToolUseEvent d)
      else if has_key ''tool_id'' d then Inr (SSEToolResultEvent d)
      else
        (case request_has_method d of
           Inl e \<Rightarrow> Inl e
         | Inr True \<Rightarrow> Inr (SSEHttpLogEvent d)
         | Inr False \<Rightarrow>
             if has_key ''error'' d \<and> has_key ''type'' d then Inr (SSEErrorEvent d)
             else if has_key ''messages'' d then Inr (SSEDoneEvent d)
             else Inr NoEvent))"

definition decode_event :: "json \<Rightarrow> fault + sse_event" where
  "decode_event parsed =
     (case parsed of
        JObj d \<Rightarrow> decode_object d
      | JArr xs \<Rightarrow> Inr NoEvent
      | _ \<Rightarrow> Inl TypeError)"

text \<open>The bodies of the branches.\<close>

fun route_event :: "env \<Rightarrow> state \<Rightarrow> sse_event \<Rightarrow> state" where
  "route_event env st (SSEMessageEvent d) =
     addDisplayMessage env st Assistant (Text (map_of d ''text''))"
| "route_event env st (SSEThinkingEvent d) =
     addDisplayMessage env st Assistant (Thinking (map_of d ''thinking''))"
| "route_event env st (SSEToolUseEvent d) =
     addDisplayMessage env st Assistant
       (ToolUse (map_of d ''id'') (map_of d ''name'') (map_of d ''input''))"
| "route_event env st (SSEToolResultEvent d) =
     addDisplayMessage env st Tool
       (ToolResult (map_of d ''tool_id'') (map_of d ''output'') (map_of d ''error'')
          (map_of d ''base64_image''))"
| "route_event env st (SSEHttpLogEvent d) = addHttpLog env st d"
| "route_event env st (SSEErrorEvent d) =
     addDisplayMessage env st Assistant (Error (map_of d ''error''))"
| "route_event env st (SSEDoneEvent d) = st\<lparr>chatHistory := map_of d ''messages''\<rparr>"
| "route_event env st NoEvent = st"

text \<open>
  The decoding policy as the specification words it (section 4.1): the eight rules in
  their order, a rule being a test on which fields the object has. Rule 5 asks for a
  \<^verbatim>\<open>request\<close> field whose nested object has \<^verbatim>\<open>method\<close>.
\<close>

definition spec_has_nested_method :: "obj \<Rightarrow> bool" where
  "spec_has_nested_method d =
     (case map_of d ''request'' of Some (JObj r) \<Rightarrow> has_key ''method'' r | _ \<Rightarrow> False)"

definition spec_priority :: "obj \<Rightarrow> sse_event" where
  "spec_priority d =
     (if has_key ''text'' d \<and> map_of d ''type'' = Some (JStr ''text'') then SSEMessageEvent d
      else if has_key ''thinking'' d then SSEThinkingEvent d
      else if has_key ''name'' d \<and> has_key ''input'' d then SSEToolUseEvent d
      else if has_key ''tool_id'' d then SSEToolResultEvent d
      else if spec_has_nested_method d then SSEHttpLogEvent d
      else if has_key ''error'' d \<and> has_key ''type'' d then SSEErrorEvent d
      else if has_key ''messages'' d then SSEDoneEvent d
      else NoEvent)"

subsection \<open>Lines and chunks (\<^verbatim>\<open>useChat.ts\<close>, lines 105 to 173)\<close>

text \<open>\<^verbatim>\<open>s.split('\n')\<close>: the pieces between the line feeds, never an empty array.\<close>

fun split_nl :: "string \<Rightarrow> string list" where
  "split_nl [] = [[]]"
| "split_nl (c # cs) =
     (if c = CHR 0x0A then [] # split_nl cs
      else (case split_nl cs of [] \<Rightarrow> [[c]] | l # ls \<Rightarrow> (c # l) # ls))"

text \<open>\<^verbatim>\<open>lines.pop() || ''\<close> and what \<^verbatim>\<open>pop\<close> leaves in \<^verbatim>\<open>lines\<close>.\<close>

definition pop_or_empty :: "string list \<Rightarrow> string" where
  "pop_or_empty ls = (if ls = [] then [] else last ls)"

text \<open>\<^verbatim>\<open>String.prototype.trim\<close>, on the white space a \<^typ>\<open>char\<close> can hold.\<close>

definition js_whitespace :: "char \<Rightarrow> bool" where
  "js_whitespace c =
     (c \<in> set [CHR 0x09, CHR 0x0A, CHR 0x0B, CHR 0x0C, CHR 0x0D, CHR 0x20, CHR 0xA0])"

definition trim :: "string \<Rightarrow> string" where
  "trim s = rev (dropWhile js_whitespace (rev (dropWhile js_whitespace s)))"

definition console_error :: "state \<Rightarrow> string \<Rightarrow> state" where
  "console_error st d = st\<lparr>console := console st @ [(''Failed to parse SSE data:'', d)]\<rparr>"

text \<open>The inner \<^verbatim>\<open>try\<close>: parse, decode, run the branch.\<close>

definition handle_data :: "(string \<Rightarrow> json option) \<Rightarrow> env \<Rightarrow> state \<Rightarrow> string \<Rightarrow> fault + state" where
  "handle_data parse env st d =
     (case parse d of
        None \<Rightarrow> Inl SyntaxError
      | Some parsed \<Rightarrow>
          (case decode_event parsed of
             Inl e \<Rightarrow> Inl e
           | Inr ev \<Rightarrow> Inr (route_event env st ev)))"

definition process_line :: "(string \<Rightarrow> json option) \<Rightarrow> env \<Rightarrow> state \<Rightarrow> string \<Rightarrow> state" where
  "process_line parse env st line =
     (if prefix ''event:'' line then st
      else if prefix ''data:'' line then
        (let d = trim (drop 5 line) in
         if d = [] then st
         else (case handle_data parse env st d of
                 Inl e \<Rightarrow> console_error st d
               | Inr st' \<Rightarrow> st'))
      else st)"

fun process_lines :: "(string \<Rightarrow> json option) \<Rightarrow> env \<Rightarrow> state \<Rightarrow> string list \<Rightarrow> state" where
  "process_lines parse env st [] = st"
| "process_lines parse env st (l # ls) = process_lines parse env (process_line parse env st l) ls"

text \<open>
  The body of the response as the reader hands it out: the result of the n-th
  \<^verbatim>\<open>reader.read()\<close> is a chunk, the end of the stream, or a rejection. The chunk is the
  text that \<^verbatim>\<open>decoder.decode(value, {stream: true})\<close> returns for it; the streaming
  decoder keeps an incomplete byte sequence for the next call, so these texts, one after
  the other, are the decoded stream.
\<close>

datatype read_result = RChunk string | RDone | RFault js_error

type_synonym reader = "nat \<Rightarrow> read_result"

text \<open>
  The \<^verbatim>\<open>while (true)\<close> loop. It returns the state together with the fault that left
  the loop, if one did; on a body that never ends it does not return (\<open>None\<close>).
\<close>

partial_function (option) read_loop ::
  "(string \<Rightarrow> json option) \<Rightarrow> env \<Rightarrow> reader \<Rightarrow> nat \<Rightarrow> string \<Rightarrow> state \<Rightarrow> (state \<times> js_error option) option"
where
  "read_loop parse env rd i buffer st =
     (case rd i of
        RDone \<Rightarrow> Some (st, None)
      | RFault e \<Rightarrow> Some (st, Some e)
      | RChunk v \<Rightarrow>
          read_loop parse env rd (Suc i)
            (pop_or_empty (split_nl (buffer @ v)))
            (process_lines parse env st (butlast (split_nl (buffer @ v)))))"

declare read_loop.simps [code]

subsection \<open>The request (\<^verbatim>\<open>useChat.ts\<close>, lines 76 to 103)\<close>

text \<open>
  The object literal handed to \<^verbatim>\<open>JSON.stringify\<close>, in the order of the source, a
  property whose value is \<^verbatim>\<open>undefined\<close> being \<open>None\<close>; \<^verbatim>\<open>JSON.stringify\<close> leaves
  such a property out. \<^verbatim>\<open>config.apiKey || undefined\<close> is \<^verbatim>\<open>undefined\<close> exactly for
  the empty string.
\<close>

definition provider_name :: "Provider \<Rightarrow> string" where
  "provider_name p = (case p of Anthropic \<Rightarrow> ''anthropic'' | Bedrock \<Rightarrow> ''bedrock'' | Vertex \<Rightarrow> ''vertex'')"

definition request_literal :: "AppConfig \<Rightarrow> json \<Rightarrow> (string \<times> field) list" where
  "request_literal config updatedHistory =
     [(''messages'', Some updatedHistory),
      (''model'', Some (JStr (model config))),
      (''provider'', Some (JStr (provider_name (provider config)))),
      (''api_key'', if apiKey config = [] then None else Some (JStr (apiKey config))),
      (''system_prompt_suffix'', Some (JStr (systemPromptSuffix config))),
      (''only_n_most_recent_images'', Some (JNum (onlyNMostRecentImages config))),
      (''max_tokens'', Some (JNum (maxTokens config))),
      (''tool_version'', Some (JStr (toolVersion config))),
      (''thinking_budget'', if thinkingEnabled config then Some (JNum (thinkingBudget config)) else None),
      (''token_efficient_tools_beta'', Some (JBool (tokenEfficientToolsBeta config)))]"

fun stringify_fields :: "(string \<times> field) list \<Rightarrow> obj" where
  "stringify_fields [] = []"
| "stringify_fields ((k, None) # fs) = stringify_fields fs"
| "stringify_fields ((k, Some v) # fs) = (k, v) # stringify_fields fs"

definition request_body :: "AppConfig \<Rightarrow> json \<Rightarrow> json" where
  "request_body config updatedHistory = JObj (stringify_fields (request_literal config updatedHistory))"

record response =
  status :: nat
  body :: "reader option"

text \<open>\<^verbatim>\<open>response.ok\<close>: the status is in the range 200 to 299.\<close>

definition response_ok :: "response \<Rightarrow> bool" where
  "response_ok r = (200 \<le> status r \<and> status r \<le> 299)"

datatype fetch_result = FetchRejected js_error | FetchResponse response

text \<open>
  The decimal numeral that a template literal prints for a status code; \<open>digit\<close> is only
  applied below ten.
\<close>

definition digit :: "nat \<Rightarrow> char" where
  "digit k = ''0123456789'' ! k"

fun decimal :: "nat \<Rightarrow> string" where
  "decimal n = (if n div 10 = 0 then [digit n] else decimal (n div 10) @ [digit (n mod 10)])"

declare decimal.simps [simp del]

subsection \<open>\<^verbatim>\<open>sendMessage\<close>, \<^verbatim>\<open>stop\<close>, \<^verbatim>\<open>clearMessages\<close>\<close>

text \<open>
  \<^verbatim>\<open>[...chatHistory, userMessage]\<close> iterates the stored history: an array gives its
  elements, a string its characters, and any other value is not iterable, which raises a
  TypeError outside the \<^verbatim>\<open>try\<close>.
\<close>

definition spread :: "field \<Rightarrow> json list option" where
  "spread h =
     (case h of
        Some (JArr xs) \<Rightarrow> Some xs
      | Some (JStr s) \<Rightarrow> Some (map (\<lambda>c. JStr [c]) s)
      | _ \<Rightarrow> None)"

definition userMessage :: "string \<Rightarrow> json" where
  "userMessage text = JObj [(''role'', JStr ''user''), (''content'', JStr text)]"

text \<open>The \<^verbatim>\<open>try\<close> block: the state it reached and the fault it raised, if any.\<close>

definition try_block ::
  "(string \<Rightarrow> json option) \<Rightarrow> env \<Rightarrow> AppConfig \<Rightarrow> (json \<Rightarrow> fetch_result) \<Rightarrow> json \<Rightarrow> state
     \<Rightarrow> (state \<times> js_error option) option" where
  "try_block parse env config fetch updatedHistory st =
     (case fetch (request_body config updatedHistory) of
        FetchRejected e \<Rightarrow> Some (st, Some e)
      | FetchResponse r \<Rightarrow>
          if \<not> response_ok r then
            Some (st, Some \<lparr>err_name = ''Error'',
                            err_message = ''HTTP error! status: '' @ decimal (status r)\<rparr>)
          else
            (case body r of
               None \<Rightarrow> Some (st, Some \<lparr>err_name = ''Error'', err_message = ''No response body''\<rparr>)
             | Some rd \<Rightarrow> read_loop parse env rd 0 [] st))"

text \<open>The \<^verbatim>\<open>catch\<close> and the \<^verbatim>\<open>finally\<close> blocks.\<close>

definition catch_block :: "env \<Rightarrow> state \<Rightarrow> js_error option \<Rightarrow> state" where
  "catch_block env st thrown =
     (case thrown of
        None \<Rightarrow> st
      | Some e \<Rightarrow>
          if err_name e = ''AbortError''
          then addDisplayMessage env st Assistant (Text (Some (JStr ''(stopped by user)'')))
          else addDisplayMessage env st Assistant (Error (Some (JStr (err_message e)))))"

definition finally_block :: "state \<Rightarrow> state" where
  "finally_block st = st\<lparr>isStreaming := False, abortController := None\<rparr>"

datatype promise = Fulfilled | Rejected fault

text \<open>The state on entry to the \<^verbatim>\<open>try\<close> block (lines 61 to 73).\<close>

definition enter_streaming :: "env \<Rightarrow> state \<Rightarrow> string \<Rightarrow> json list \<Rightarrow> state" where
  "enter_streaming env st text h =
     (addDisplayMessage env st User (Text (Some (JStr text))))
       \<lparr>chatHistory := Some (JArr (h @ [userMessage text])), isStreaming := True,
        abortController := Some False\<rparr>"

definition sendMessage ::
  "(string \<Rightarrow> json option) \<Rightarrow> env \<Rightarrow> AppConfig \<Rightarrow> (json \<Rightarrow> fetch_result) \<Rightarrow> state \<Rightarrow> string
     \<Rightarrow> (promise \<times> state) option" where
  "sendMessage parse env config fetch st text =
     (case spread (chatHistory st) of
        None \<Rightarrow> Some (Rejected TypeError, addDisplayMessage env st User (Text (Some (JStr text))))
      | Some h \<Rightarrow>
          (case try_block parse env config fetch (JArr (h @ [userMessage text]))
                  (enter_streaming env st text h) of
             None \<Rightarrow> None
           | Some (st', thrown) \<Rightarrow> Some (Fulfilled, finally_block (catch_block env st' thrown))))"

definition stop :: "state \<Rightarrow> state" where
  "stop st = (case abortController st of None \<Rightarrow> st | Some b \<Rightarrow> st\<lparr>abortController := Some True\<rparr>)"

definition clearMessages :: "state \<Rightarrow> state" where
  "clearMessages st = st\<lparr>displayMessages := [], chatHistory := Some (JArr []), httpLogs := []\<rparr>"

subsection \<open>Notions used to state the properties\<close>

text \<open>
  A reader ends at its first result that is not a chunk; \<open>chunks_before\<close> are the texts
  read before that, \<open>fault_of\<close> the rejection, if the end is one. \<open>reader_of cs t\<close> hands
  out the chunks \<open>cs\<close> and then \<open>t\<close>. The complete lines of a text are the pieces that a
  line feed ends. The transcript is the list of display messages without the identifiers
  and time stamps.
\<close>

fun is_chunk :: "read_result \<Rightarrow> bool" where
  "is_chunk (RChunk v) = True"
| "is_chunk RDone = False"
| "is_chunk (RFault e) = False"

fun chunk_text :: "read_result \<Rightarrow> string" where
  "chunk_text (RChunk v) = v"
| "chunk_text RDone = []"
| "chunk_text (RFault e) = []"

fun fault_of :: "read_result \<Rightarrow> js_error option" where
  "fault_of (RChunk v) = None"
| "fault_of RDone = None"
| "fault_of (RFault e) = Some e"

definition ends_at :: "reader \<Rightarrow> nat \<Rightarrow> bool" where
  "ends_at rd n = ((\<forall>k<n. is_chunk (rd k)) \<and> \<not> is_chunk (rd n))"

definition chunks_before :: "reader \<Rightarrow> nat \<Rightarrow> string list" where
  "chunks_before rd n = map (\<lambda>k. chunk_text (rd k)) [0..<n]"

definition complete_lines :: "string \<Rightarrow> string list" where
  "complete_lines s = butlast (split_nl s)"

definition reader_of :: "string list \<Rightarrow> read_result \<Rightarrow> reader" where
  "reader_of cs t = (\<lambda>i. if i < length cs then RChunk (cs ! i) else t)"

definition transcript :: "state \<Rightarrow> (Role \<times> DisplayContent) list" where
  "transcript st = map (\<lambda>m. (msg_role m, msg_content m)) (displayMessages st)"


text \<open>
  The objects on which the chain reaches its fifth test with a \<^verbatim>\<open>request\<close> property
  that holds a primitive value (null, a boolean, a number or a string).
\<close>

definition request_is_primitive :: "obj \<Rightarrow> bool" where
  "request_is_primitive d =
     (case map_of d ''request'' of
        Some JNull \<Rightarrow> True
      | Some (JBool b) \<Rightarrow> True
      | Some (JNum n) \<Rightarrow> True
      | Some (JStr s) \<Rightarrow> True
      | _ \<Rightarrow> False)"

definition reaches_primitive_request :: "obj \<Rightarrow> bool" where
  "reaches_primitive_request d =
     (\<not> (has_key ''text'' d \<and> map_of d ''type'' = Some (JStr ''text'')) \<and>
      \<not> has_key ''thinking'' d \<and> \<not> (has_key ''name'' d \<and> has_key ''input'' d) \<and>
      \<not> has_key ''tool_id'' d \<and> request_is_primitive d)"

text \<open>
  The session is idle when the busy flag is down and the handle is \<^verbatim>\<open>null\<close>. An answer of
  the network settles when the request is rejected, or the status is not in the 2xx range,
  or the body is missing, or the body's reader ends.
\<close>

definition idle :: "state \<Rightarrow> bool" where
  "idle st = (\<not> isStreaming st \<and> abortController st = None)"

definition settles :: "fetch_result \<Rightarrow> bool" where
  "settles a =
     (case a of
        FetchRejected e \<Rightarrow> True
      | FetchResponse r \<Rightarrow>
          (case body r of
             None \<Rightarrow> True
           | Some rd \<Rightarrow> response_ok r \<longrightarrow> (\<exists>n. ends_at rd n)))"

subsection \<open>Concrete inputs\<close>

text \<open>
  \<open>DEFAULT_CONFIG\<close> is the configuration of \<^verbatim>\<open>App.tsx\<close>. \<open>sample_parse\<close> is
  \<^verbatim>\<open>JSON.parse\<close> on the payloads used below: six objects it parses, and \<^verbatim>\<open>{oops\<close>,
  which it rejects. \<open>earlier_session\<close> is a session that has had one turn.
\<close>

definition DEFAULT_CONFIG :: AppConfig where
  "DEFAULT_CONFIG =
     \<lparr>provider = Anthropic, apiKey = [], model = ''claude-sonnet-4-5-20250929'',
      systemPromptSuffix = [], onlyNMostRecentImages = 3, maxTokens = 16384,
      toolVersion = ''computer_use_20250124'', thinkingEnabled = False, thinkingBudget = 8192,
      hideImages = False, tokenEfficientToolsBeta = False\<rparr>"

definition sample_env :: env where
  "sample_env n = (decimal n, n)"

definition ambiguous_payload :: obj where
  "ambiguous_payload = [(''thinking'', JStr ''hm''), (''tool_id'', JStr ''t1'')]"

definition text_first_payload :: obj where
  "text_first_payload =
     [(''type'', JStr ''text''), (''text'', JStr ''hi''), (''thinking'', JStr ''hm''),
      (''tool_id'', JStr ''t1'')]"

definition primitive_request_payload :: obj where
  "primitive_request_payload =
     [(''request'', JNum 5),
      (''messages'', JArr [JObj [(''role'', JStr ''assistant''), (''content'', JStr ''ok'')]])]"

definition array_request_payload :: obj where
  "array_request_payload =
     [(''request'', JArr []),
      (''messages'', JArr [JObj [(''role'', JStr ''assistant''), (''content'', JStr ''ok'')]])]"

definition done_payload :: obj where
  "done_payload = [(''messages'', JArr [JObj [(''role'', JStr ''assistant''), (''content'', JStr ''ok'')]])]"

definition sample_parse :: "string \<Rightarrow> json option" where
  \<open>sample_parse d =
     (if d = ''{"thinking":"hm","tool_id":"t1"}'' then Some (JObj ambiguous_payload)
      else if d = ''{"tool_id":"t1","output":"ok"}'' then
        Some (JObj [(''tool_id'', JStr ''t1''), (''output'', JStr ''ok'')])
      else if d = ''{"messages":[{"role":"assistant","content":"ok"}]}'' then Some (JObj done_payload)
      else if d = ''{"type":"text","text":"hi","thinking":"hm","tool_id":"t1"}'' then
        Some (JObj text_first_payload)
      else if d = ''{"request":5,"messages":[{"role":"assistant","content":"ok"}]}'' then
        Some (JObj primitive_request_payload)
      else if d = ''{"request":[],"messages":[{"role":"assistant","content":"ok"}]}'' then
        Some (JObj array_request_payload)
      else None)\<close>

definition earlier_session :: state where
  "earlier_session =
     \<lparr>displayMessages =
        [\<lparr>msg_id = ''a'', msg_role = User, msg_content = Text (Some (JStr ''hello'')),
          msg_timestamp = 1\<rparr>,
         \<lparr>msg_id = ''b'', msg_role = Assistant, msg_content = Text (Some (JStr ''hi there'')),
          msg_timestamp = 2\<rparr>],
      chatHistory =
        Some (JArr [userMessage ''hello'',
                    JObj [(''role'', JStr ''assistant''), (''content'', JStr ''hi there'')]]),
      httpLogs = [], isStreaming = False, abortController = None, console = [], draws = 2\<rparr>"

definition answer_with :: "fetch_result \<Rightarrow> json \<Rightarrow> fetch_result" where
  "answer_with a req = a"

definition sample_stream :: "string list" where
  \<open>sample_stream =
     [''event: thinking\<newline>data: {"thin'', ''king":"hm","tool_id":"t1"}\<newline>\<newline>data: {oops\<newline>da'',
      ''ta: {"tool_id":"t1","output":"ok"}\<newline>'']\<close>

text \<open>
  Answers of the network: a status 500, a stream that the user aborts after its second
  chunk, the whole \<open>sample_stream\<close>, and a server that answers 401 to a request without
  \<^verbatim>\<open>api_key\<close>.
\<close>

definition AbortError :: js_error where
  "AbortError = \<lparr>err_name = ''AbortError'', err_message = ''The user aborted a request.''\<rparr>"

definition server_error_500 :: fetch_result where
  "server_error_500 = FetchResponse \<lparr>status = 500, body = Some (reader_of [] RDone)\<rparr>"

definition aborted_stream :: fetch_result where
  "aborted_stream = FetchResponse \<lparr>status = 200, body = Some (reader_of (take 2 sample_stream) (RFault AbortError))\<rparr>"

definition complete_stream :: fetch_result where
  "complete_stream = FetchResponse \<lparr>status = 200, body = Some (reader_of sample_stream RDone)\<rparr>"

definition unauthorized :: fetch_result where
  "unauthorized = FetchResponse \<lparr>status = 401, body = None\<rparr>"

definition key_checking_server :: "json \<Rightarrow> fetch_result" where
  "key_checking_server req =
     (case req of
        JObj fs \<Rightarrow> if has_key ''api_key'' fs then complete_stream else unauthorized
      | _ \<Rightarrow> unauthorized)"

section \<open>Properties\<close>

subsection \<open>Splitting a text into lines\<close>

lemma split_nl_nonempty: "split_nl s \<noteq> []"
  by (induction s) (auto split: list.splits)

lemma split_nl_append:
  "split_nl (a @ b) = butlast (split_nl a) @ split_nl (last (split_nl a) @ b)"
proof (induction a)
  case Nil
  show ?case by simp
next
  case (Cons c a)
  obtain l ls where sa: "split_nl a = l # ls"
    using split_nl_nonempty [of a] by (cases "split_nl a") auto
  show ?case
  proof (cases "c = CHR 0x0A")
    case True
    then show ?thesis using Cons sa by simp
  next
    case False
    show ?thesis
    proof (cases ls)
      case Nil
      then show ?thesis using Cons sa False by simp
    next
      case (Cons x xs)
      then show ?thesis using Cons.IH sa False by simp
    qed
  qed
qed

lemma split_nl_no_newline: "CHR 0x0A \<notin> set s \<Longrightarrow> split_nl s = [s]"
  by (induction s) auto

lemma split_nl_pieces: "l \<in> set (split_nl s) \<Longrightarrow> CHR 0x0A \<notin> set l"
  by (induction s arbitrary: l) (auto split: if_splits list.splits)

lemma pop_or_empty_split: "pop_or_empty (split_nl s) = last (split_nl s)"
  by (simp add: pop_or_empty_def split_nl_nonempty)

lemma last_split_nl_clean: "CHR 0x0A \<notin> set (last (split_nl s))"
  using split_nl_pieces [of "last (split_nl s)" s] split_nl_nonempty [of s] by simp

lemma complete_lines_append:
  "complete_lines (a @ b) = complete_lines a @ complete_lines (last (split_nl a) @ b)"
  unfolding complete_lines_def
  by (subst split_nl_append) (simp add: butlast_append split_nl_nonempty)

subsection \<open>Processing lines\<close>

lemma process_lines_append:
  "process_lines parse env st (xs @ ys) = process_lines parse env (process_lines parse env st xs) ys"
  by (induction xs arbitrary: st) auto

lemma transcript_route_event:
  "transcript s1 = transcript s2 \<Longrightarrow>
   transcript (route_event e1 s1 ev) = transcript (route_event e2 s2 ev)"
  by (cases ev) (simp_all add: transcript_def addDisplayMessage_def addHttpLog_def)

lemma transcript_process_line:
  "transcript s1 = transcript s2 \<Longrightarrow>
   transcript (process_line parse e1 s1 l) = transcript (process_line parse e2 s2 l)"
  using transcript_route_event [of s1 s2 e1 _ e2]
  by (auto simp: process_line_def handle_data_def console_error_def Let_def transcript_def
           split: option.splits sum.splits)

lemma transcript_process_lines:
  "transcript s1 = transcript s2 \<Longrightarrow>
   transcript (process_lines parse e1 s1 ls) = transcript (process_lines parse e2 s2 ls)"
proof (induction ls arbitrary: s1 s2)
  case Nil
  then show ?case by simp
next
  case (Cons l ls)
  have "transcript (process_line parse e1 s1 l) = transcript (process_line parse e2 s2 l)"
    by (rule transcript_process_line [OF Cons.prems])
  from Cons.IH [OF this] show ?case by simp
qed

lemma prefix_route_event: "prefix (displayMessages st) (displayMessages (route_event env st ev))"
  by (cases ev) (simp_all add: addDisplayMessage_def addHttpLog_def)

lemma prefix_process_line: "prefix (displayMessages st) (displayMessages (process_line parse env st l))"
  using prefix_route_event [of st env]
  by (auto simp: process_line_def handle_data_def console_error_def Let_def
           split: option.splits sum.splits)

lemma prefix_process_lines: "prefix (displayMessages st) (displayMessages (process_lines parse env st ls))"
proof (induction ls arbitrary: st)
  case Nil
  show ?case by simp
next
  case (Cons l ls)
  have "prefix (displayMessages st) (displayMessages (process_line parse env st l))"
    by (rule prefix_process_line)
  also have "prefix \<dots> (displayMessages (process_lines parse env (process_line parse env st l) ls))"
    by (rule Cons.IH)
  finally show ?case by simp
qed




lemma data_not_event: "prefix ''data:'' l \<Longrightarrow> \<not> prefix ''event:'' l"
  by (cases l) auto

lemma done_has_messages:
  "decode_event parsed = Inr (SSEDoneEvent d) \<Longrightarrow> parsed = JObj d \<and> map_of d ''messages'' \<noteq> None"
  by (auto simp: decode_event_def decode_object_def has_key_def
           split: json.splits if_splits sum.splits bool.splits)

lemma decode_follows_priority:
  assumes "\<not> reaches_primitive_request d"
  shows "decode_event (JObj d) = Inr (spec_priority d)"
proof -
  have a: "request_has_method d = Inr b \<Longrightarrow> spec_has_nested_method d = b" for b
    by (auto simp: request_has_method_def spec_has_nested_method_def
             split: option.splits json.splits)
  have b: "request_has_method d = Inl e \<Longrightarrow> request_is_primitive d" for e
    by (auto simp: request_has_method_def request_is_primitive_def
             split: option.splits json.splits)
  show ?thesis
    using a b assms
    by (cases "request_has_method d")
       (auto simp: decode_event_def decode_object_def spec_priority_def
          reaches_primitive_request_def)
qed

lemma process_data_line:
  assumes "prefix ''data:'' line" and "trim (drop 5 line) \<noteq> []"
    and "parse (trim (drop 5 line)) = Some parsed" and "decode_event parsed = Inr ev"
  shows "process_line parse env st line = route_event env st ev"
  using assms data_not_event [OF assms(1)]
  by (simp add: process_line_def handle_data_def Let_def)

subsection \<open>The read loop\<close>

text \<open>
  On a reader that ends, the loop returns, and it has processed the complete lines of the
  text read, in order; what follows the last line feed is dropped.
\<close>

lemma read_loop_from:
  assumes "\<forall>k<n. is_chunk (rd (i + k))" and "\<not> is_chunk (rd (i + n))"
    and "CHR 0x0A \<notin> set buf"
  shows "read_loop parse env rd i buf st =
           Some (process_lines parse env st
                   (complete_lines (buf @ concat (map (\<lambda>k. chunk_text (rd (i + k))) [0..<n]))),
                 fault_of (rd (i + n)))"
  using assms
proof (induction n arbitrary: i buf st)
  case 0
  then have "\<not> is_chunk (rd i)" by simp
  moreover have "complete_lines buf = []"
    using 0 by (simp add: complete_lines_def split_nl_no_newline)
  ultimately show ?case
    by (subst read_loop.simps) (cases "rd i"; simp)
next
  case (Suc n)
  from Suc.prems(1) have "is_chunk (rd (i + 0))" by blast
  then obtain v where v: "rd i = RChunk v" by (cases "rd i") auto
  let ?buf = "last (split_nl (buf @ v))"
  let ?st = "process_lines parse env st (complete_lines (buf @ v))"
  have step: "read_loop parse env rd i buf st = read_loop parse env rd (Suc i) ?buf ?st"
    by (subst read_loop.simps) (simp add: v pop_or_empty_split complete_lines_def)
  have a: "\<forall>k<n. is_chunk (rd (Suc i + k))"
  proof (intro allI impI)
    fix k assume "k < n"
    then have "Suc k < Suc n" by simp
    with Suc.prems(1) have "is_chunk (rd (i + Suc k))" by blast
    then show "is_chunk (rd (Suc i + k))" by simp
  qed
  have b: "\<not> is_chunk (rd (Suc i + n))" using Suc.prems(2) by simp
  have ih: "read_loop parse env rd (Suc i) ?buf ?st =
      Some (process_lines parse env ?st
              (complete_lines (?buf @ concat (map (\<lambda>k. chunk_text (rd (Suc i + k))) [0..<n]))),
            fault_of (rd (Suc i + n)))"
    by (rule Suc.IH [OF a b last_split_nl_clean])
  have c: "concat (map (\<lambda>k. chunk_text (rd (i + k))) [0..<Suc n]) =
        v @ concat (map (\<lambda>k. chunk_text (rd (Suc i + k))) [0..<n])"
    by (simp only: upt_conv_Cons [of 0 "Suc n"] map_Suc_upt [symmetric])
       (simp add: v comp_def del: upt_Suc)
  have "complete_lines (buf @ concat (map (\<lambda>k. chunk_text (rd (i + k))) [0..<Suc n])) =
        complete_lines (buf @ v) @
        complete_lines (?buf @ concat (map (\<lambda>k. chunk_text (rd (Suc i + k))) [0..<n]))"
    unfolding c using complete_lines_append [of "buf @ v"] by simp
  then show ?case
    unfolding step ih by (simp add: process_lines_append)
qed

lemma read_loop_ends:
  assumes "ends_at rd n"
  shows "read_loop parse env rd 0 [] st =
           Some (process_lines parse env st (complete_lines (concat (chunks_before rd n))),
                 fault_of (rd n))"
  using read_loop_from [of n rd 0 "[]" parse env st] assms
  by (simp add: ends_at_def chunks_before_def)

lemma ends_at_reader_of: "\<not> is_chunk t \<Longrightarrow> ends_at (reader_of cs t) (length cs)"
  by (simp add: ends_at_def reader_of_def)

lemma chunks_before_reader_of: "chunks_before (reader_of cs t) (length cs) = cs"
  by (auto simp: chunks_before_def reader_of_def intro!: nth_equalityI)

lemma prefix_read_loop_aux:
  "read_loop parse env rd i buf st = Some r \<Longrightarrow>
   prefix (displayMessages st) (displayMessages (fst r))"
proof (induction rule: read_loop.raw_induct [rotated 1, consumes 1, case_names step])
  case (step read_loop parse env rd i buffer st r)
  show ?case
  proof (cases "rd i")
    case (RChunk v)
    with step(2) have "read_loop parse env rd (Suc i) (pop_or_empty (split_nl (buffer @ v)))
            (process_lines parse env st (butlast (split_nl (buffer @ v)))) = Some r"
      by simp
    from step(1) [OF this] prefix_process_lines [of st parse env "butlast (split_nl (buffer @ v))"]
    show ?thesis by (rule prefix_order.trans [rotated])
  next
    case RDone
    with step(2) show ?thesis by auto
  next
    case (RFault e)
    with step(2) show ?thesis by auto
  qed
qed

text \<open>And the loop returns on no other reader.\<close>

lemma read_loop_returns_only_if_ends:
  "read_loop parse env rd i buf st = Some r \<Longrightarrow> \<exists>n. \<not> is_chunk (rd (i + n))"
proof (induction rule: read_loop.raw_induct [rotated 1, consumes 1, case_names step])
  case (step read_loop parse env rd i buffer st r)
  show ?case
  proof (cases "is_chunk (rd i)")
    case False
    then have "\<not> is_chunk (rd (i + 0))" by simp
    then show ?thesis by blast
  next
    case True
    then obtain v where "rd i = RChunk v" by (cases "rd i") auto
    with step(2) have "read_loop parse env rd (Suc i) (pop_or_empty (split_nl (buffer @ v)))
            (process_lines parse env st (butlast (split_nl (buffer @ v)))) = Some r"
      by simp
    from step(1) [OF this] obtain n where "\<not> is_chunk (rd (Suc i + n))" by blast
    then have "\<not> is_chunk (rd (i + Suc n))" by simp
    then show ?thesis by blast
  qed
qed

lemma reader_of_end: "reader_of cs t (length cs) = t"
  by (simp add: reader_of_def)

lemma read_loop_reader_of:
  assumes "\<not> is_chunk t"
  shows "read_loop parse env (reader_of cs t) 0 [] st =
           Some (process_lines parse env st (complete_lines (concat cs)), fault_of t)"
  using read_loop_ends [OF ends_at_reader_of [OF assms, of cs], of parse env st]
  by (simp only: chunks_before_reader_of reader_of_end)

subsection \<open>\<^verbatim>\<open>sendMessage\<close> as a whole\<close>

lemma sendMessage_entered:
  assumes "spread (chatHistory st) = Some h"
  shows "sendMessage parse env config fetch st text =
           map_option (\<lambda>(st', thrown). (Fulfilled, finally_block (catch_block env st' thrown)))
             (try_block parse env config fetch (JArr (h @ [userMessage text]))
                (enter_streaming env st text h))"
  using assms by (simp add: sendMessage_def split: option.splits)

lemma prefix_try_block:
  "try_block parse env config fetch uh st = Some (st', x) \<Longrightarrow>
   prefix (displayMessages st) (displayMessages st')"
  using prefix_read_loop_aux [of parse env _ 0 "[]" st "(st', x)"]
  by (auto simp: try_block_def split: fetch_result.splits if_splits option.splits)

lemma prefix_catch_block: "prefix (displayMessages st) (displayMessages (catch_block env st x))"
  by (simp add: catch_block_def addDisplayMessage_def split: option.splits)

lemma prefix_enter_streaming: "prefix (displayMessages st) (displayMessages (enter_streaming env st text h))"
  by (simp add: enter_streaming_def addDisplayMessage_def)

lemma prefix_sendMessage:
  assumes "sendMessage parse env config fetch st text = Some (p, st')"
  shows "prefix (displayMessages st) (displayMessages st')"
proof (cases "spread (chatHistory st)")
  case None
  with assms show ?thesis by (auto simp: sendMessage_def addDisplayMessage_def)
next
  case (Some h)
  from assms obtain s x where
    t: "try_block parse env config fetch (JArr (h @ [userMessage text])) (enter_streaming env st text h) = Some (s, x)"
    and st': "st' = finally_block (catch_block env s x)"
    unfolding sendMessage_entered [OF Some] by auto
  have "prefix (displayMessages st) (displayMessages (enter_streaming env st text h))"
    by (rule prefix_enter_streaming)
  also have "prefix \<dots> (displayMessages s)" by (rule prefix_try_block [OF t])
  also have "prefix \<dots> (displayMessages (catch_block env s x))" by (rule prefix_catch_block)
  finally show ?thesis by (simp add: st' finally_block_def)
qed

lemma try_block_stream:
  assumes "fetch (request_body config uh) = FetchResponse r"
    and "response_ok r" and "body r = Some rd" and "ends_at rd n"
  shows "try_block parse env config fetch uh st =
           Some (process_lines parse env st (complete_lines (concat (chunks_before rd n))),
                 fault_of (rd n))"
  using assms read_loop_ends [OF assms(4), of parse env st]
  by (simp add: try_block_def)

lemma try_block_settles:
  assumes "settles (fetch (request_body config uh))"
  shows "\<exists>st' x. try_block parse env config fetch uh st = Some (st', x)"
proof (cases "fetch (request_body config uh)")
  case (FetchRejected e)
  then show ?thesis by (simp add: try_block_def)
next
  case (FetchResponse r)
  show ?thesis
  proof (cases "response_ok r \<and> body r \<noteq> None")
    case False
    with FetchResponse show ?thesis by (auto simp: try_block_def split: option.splits)
  next
    case True
    then obtain rd where rd: "body r = Some rd" by auto
    with assms FetchResponse True obtain n where "ends_at rd n"
      by (auto simp: settles_def)
    from try_block_stream [where fetch = fetch and config = config and uh = uh and r = r
        and rd = rd and n = n, OF FetchResponse _ rd this] True
    show ?thesis by simp
  qed
qed

lemma sendMessage_returns:
  assumes a: "spread (chatHistory st) = Some h"
    and b: "settles (fetch (request_body config (JArr (h @ [userMessage text]))))"
  shows "\<exists>st'. sendMessage parse env config fetch st text = Some (Fulfilled, st')"
proof -
  from try_block_settles [where fetch = fetch and config = config
      and uh = "JArr (h @ [userMessage text])", OF b]
  obtain s x where
    "try_block parse env config fetch (JArr (h @ [userMessage text]))
       (enter_streaming env st text h) = Some (s, x)"
    by blast
  with a show ?thesis by (simp add: sendMessage_entered)
qed

lemma settles_complete_stream: "settles complete_stream"
proof -
  have "ends_at (reader_of sample_stream RDone) (length sample_stream)"
    by (rule ends_at_reader_of) simp
  then show ?thesis
    by (auto simp: settles_def complete_stream_def)
qed

section \<open>The claims\<close>

text \<open>
  C1 (as amended). On every parsed object the decoder follows the priority list of
  section 4.1 of the specification, rule by rule, and a data line that carries the object
  is handled by the branch of the rule so chosen. This is stated for every object but
  those on which rules 1 to 4 do not apply and whose \<^verbatim>\<open>request\<close> property holds a
  primitive value; about those nothing is said here. An object that has both
  \<^verbatim>\<open>thinking\<close> and \<^verbatim>\<open>tool_id\<close> is never a tool-result event: it is a thinking event,
  unless rule 1 applies (it has \<^verbatim>\<open>text\<close> and its \<^verbatim>\<open>type\<close> is \<^verbatim>\<open>'text'\<close>), and then
  it is a text event; the line that carries it adds the one assistant entry of that kind.
\<close>

theorem C1_decoder_priority:
  "(\<not> reaches_primitive_request d \<longrightarrow>
      decode_event (JObj d) = Inr (spec_priority d) \<and>
      (prefix ''data:'' line \<and> trim (drop 5 line) \<noteq> [] \<and>
       parse (trim (drop 5 line)) = Some (JObj d) \<longrightarrow>
         process_line parse env st line = route_event env st (spec_priority d))) \<and>
   (has_key ''thinking'' d \<and> has_key ''tool_id'' d \<longrightarrow>
      decode_event (JObj d) =
        Inr (if has_key ''text'' d \<and> map_of d ''type'' = Some (JStr ''text'')
             then SSEMessageEvent d else SSEThinkingEvent d) \<and>
      decode_event (JObj d) \<noteq> Inr (SSEToolResultEvent d') \<and>
      (prefix ''data:'' line \<and> trim (drop 5 line) \<noteq> [] \<and>
       parse (trim (drop 5 line)) = Some (JObj d) \<longrightarrow>
         process_line parse env st line =
           addDisplayMessage env st Assistant
             (if has_key ''text'' d \<and> map_of d ''type'' = Some (JStr ''text'')
              then Text (map_of d ''text'') else Thinking (map_of d ''thinking''))))"
proof -
  have 1: "process_line parse env st line = route_event env st (spec_priority d)"
    if "\<not> reaches_primitive_request d" and "prefix ''data:'' line"
      and "trim (drop 5 line) \<noteq> []" and "parse (trim (drop 5 line)) = Some (JObj d)"
    using process_data_line [where parse = parse and line = line and parsed = "JObj d"
        and ev = "spec_priority d" and env = env and st = st]
      decode_follows_priority [OF that(1)] that(2-4)
    by blast
  have 2: "\<not> reaches_primitive_request d" if "has_key ''thinking'' d"
    using that by (simp add: reaches_primitive_request_def)
  have 3: "spec_priority d =
        (if has_key ''text'' d \<and> map_of d ''type'' = Some (JStr ''text'')
         then SSEMessageEvent d else SSEThinkingEvent d)" if "has_key ''thinking'' d"
    using that by (simp add: spec_priority_def)
  have 4: "route_event env st
        (if has_key ''text'' d \<and> map_of d ''type'' = Some (JStr ''text'')
         then SSEMessageEvent d else SSEThinkingEvent d) =
      addDisplayMessage env st Assistant
             (if has_key ''text'' d \<and> map_of d ''type'' = Some (JStr ''text'')
              then Text (map_of d ''text'') else Thinking (map_of d ''thinking''))"
    by simp
  show ?thesis
    using decode_follows_priority [of d] 1 2 3 4
    by (auto simp del: route_event.simps)
qed

text \<open>
  The deliberately ambiguous payload of the regression test is a thinking event; an object
  whose \<^verbatim>\<open>request\<close> is an array falls through rule 5 and is a done event by rule 7.
\<close>

theorem C1_decoder_priority_witness:
  \<open>\<not> reaches_primitive_request ambiguous_payload \<and>
   has_key ''thinking'' ambiguous_payload \<and> has_key ''tool_id'' ambiguous_payload \<and>
   decode_event (JObj ambiguous_payload) = Inr (SSEThinkingEvent ambiguous_payload) \<and>
   process_line sample_parse sample_env earlier_session ''data: {"thinking":"hm","tool_id":"t1"}'' =
     addDisplayMessage sample_env earlier_session Assistant (Thinking (Some (JStr ''hm''))) \<and>
   \<not> reaches_primitive_request array_request_payload \<and>
   decode_event (JObj array_request_payload) = Inr (SSEDoneEvent array_request_payload) \<and>
   chatHistory (process_line sample_parse sample_env earlier_session
       ''data: {"request":[],"messages":[{"role":"assistant","content":"ok"}]}'') =
     Some (JArr [JObj [(''role'', JStr ''assistant''), (''content'', JStr ''ok'')]])\<close>
proof -
  let ?l1 = \<open>''data: {"thinking":"hm","tool_id":"t1"}''\<close>
  let ?l2 = \<open>''data: {"request":[],"messages":[{"role":"assistant","content":"ok"}]}''\<close>
  have a1: "\<not> reaches_primitive_request ambiguous_payload" by code_simp
  have a2: "has_key ''thinking'' ambiguous_payload \<and> has_key ''tool_id'' ambiguous_payload"
    by code_simp
  have a3: "\<not> (has_key ''text'' ambiguous_payload \<and> map_of ambiguous_payload ''type'' = Some (JStr ''text''))"
    by code_simp
  have a4: "map_of ambiguous_payload ''thinking'' = Some (JStr ''hm'')" by code_simp
  have l1: "prefix ''data:'' ?l1 \<and> trim (drop 5 ?l1) \<noteq> [] \<and>
      sample_parse (trim (drop 5 ?l1)) = Some (JObj ambiguous_payload)"
    by code_simp
  note i1 = C1_decoder_priority [where d = ambiguous_payload and line = ?l1
      and parse = sample_parse and env = sample_env and st = earlier_session]
  from i1 a2 a3 have d1: "decode_event (JObj ambiguous_payload) = Inr (SSEThinkingEvent ambiguous_payload)"
    by presburger
  from i1 a2 a3 l1 have p1: "process_line sample_parse sample_env earlier_session ?l1 =
      addDisplayMessage sample_env earlier_session Assistant (Thinking (map_of ambiguous_payload ''thinking''))"
    by presburger
  have b1: "\<not> reaches_primitive_request array_request_payload" by code_simp
  have b2: "spec_priority array_request_payload = SSEDoneEvent array_request_payload" by code_simp
  have b3: "map_of array_request_payload ''messages'' =
      Some (JArr [JObj [(''role'', JStr ''assistant''), (''content'', JStr ''ok'')]])"
    by code_simp
  have l2: "prefix ''data:'' ?l2 \<and> trim (drop 5 ?l2) \<noteq> [] \<and>
      sample_parse (trim (drop 5 ?l2)) = Some (JObj array_request_payload)"
    by code_simp
  note i2 = C1_decoder_priority [where d = array_request_payload and line = ?l2
      and parse = sample_parse and env = sample_env and st = earlier_session]
  from i2 b1 have d2: "decode_event (JObj array_request_payload) = Inr (spec_priority array_request_payload)"
    by presburger
  from i2 b1 l2 have p2: "process_line sample_parse sample_env earlier_session ?l2 =
      route_event sample_env earlier_session (spec_priority array_request_payload)"
    by presburger
  have h2: "chatHistory (process_line sample_parse sample_env earlier_session ?l2) =
      Some (JArr [JObj [(''role'', JStr ''assistant''), (''content'', JStr ''ok'')]])"
    unfolding p2 b2 by (simp add: b3)
  show ?thesis
    using a1 a2 d1 p1 b1 d2 h2 unfolding a4 b2 by blast
qed

text \<open>
  C1 as stated fails on two objects. The first has \<^verbatim>\<open>thinking\<close> and \<^verbatim>\<open>tool_id\<close> and is
  a text event, by rule 1: its line adds a text entry. The second is a done event by the
  list of section 4.1 (rule 5 does not apply to it, rule 7 does); the hook raises on its
  \<^verbatim>\<open>request\<close>, and its line leaves the history as it was.
\<close>

theorem C1_counterexample:
  \<open>has_key ''thinking'' text_first_payload \<and> has_key ''tool_id'' text_first_payload \<and>
   decode_event (JObj text_first_payload) = Inr (SSEMessageEvent text_first_payload) \<and>
   decode_event (JObj text_first_payload) \<noteq> Inr (SSEThinkingEvent text_first_payload) \<and>
   transcript (process_line sample_parse sample_env initial_state
       ''data: {"type":"text","text":"hi","thinking":"hm","tool_id":"t1"}'') =
     [(Assistant, Text (Some (JStr ''hi'')))] \<and>
   spec_priority primitive_request_payload = SSEDoneEvent primitive_request_payload \<and>
   decode_event (JObj primitive_request_payload) = Inl TypeError \<and>
   process_line sample_parse sample_env initial_state
       ''data: {"request":5,"messages":[{"role":"assistant","content":"ok"}]}'' =
     initial_state\<lparr>console := [(''Failed to parse SSE data:'',
        ''{"request":5,"messages":[{"role":"assistant","content":"ok"}]}'')]\<rparr>\<close>
proof -
  have 1: "has_key ''thinking'' text_first_payload \<and> has_key ''tool_id'' text_first_payload"
    by code_simp
  have 2: "decode_event (JObj text_first_payload) = Inr (SSEMessageEvent text_first_payload)"
    by code_simp
  have 3: \<open>transcript (process_line sample_parse sample_env initial_state
       ''data: {"type":"text","text":"hi","thinking":"hm","tool_id":"t1"}'') =
     [(Assistant, Text (Some (JStr ''hi'')))]\<close>
    by code_simp
  have 4: "spec_priority primitive_request_payload = SSEDoneEvent primitive_request_payload"
    by code_simp
  have 5: "decode_event (JObj primitive_request_payload) = Inl TypeError" by code_simp
  have 6: \<open>process_line sample_parse sample_env initial_state
       ''data: {"request":5,"messages":[{"role":"assistant","content":"ok"}]}'' =
     initial_state\<lparr>console := [(''Failed to parse SSE data:'',
        ''{"request":5,"messages":[{"role":"assistant","content":"ok"}]}'')]\<rparr>\<close>
    by code_simp
  from 1 2 3 4 5 6 show ?thesis by simp
qed

text \<open>
  C2. Whatever way the text of a stream is cut into chunks \<open>cs\<close> (also in the middle of
  a line), the read loop ends with the same transcript, roles and contents, as on the
  single chunk \<open>concat cs\<close>, whether the stream ends or a read is rejected (\<open>t\<close>), and from
  any state. The two runs may draw different identifiers and time stamps (\<open>env1\<close>,
  \<open>env2\<close>); when they draw the same ones the two final states are equal altogether.
\<close>

theorem C2_chunking_invariant:
  assumes "\<not> is_chunk t"
  shows "\<exists>s1 s2.
           read_loop parse env1 (reader_of cs t) 0 [] st = Some (s1, fault_of t) \<and>
           read_loop parse env2 (reader_of [concat cs] t) 0 [] st = Some (s2, fault_of t) \<and>
           transcript s1 = transcript s2 \<and>
           (env1 = env2 \<longrightarrow> s1 = s2)"
proof -
  have a: "read_loop parse env1 (reader_of cs t) 0 [] st =
        Some (process_lines parse env1 st (complete_lines (concat cs)), fault_of t)"
    by (rule read_loop_reader_of [OF assms])
  have b: "read_loop parse env2 (reader_of [concat cs] t) 0 [] st =
        Some (process_lines parse env2 st (complete_lines (concat cs)), fault_of t)"
    using read_loop_reader_of [OF assms, of parse env2 "[concat cs]" st] by simp
  have "transcript (process_lines parse env1 st (complete_lines (concat cs))) =
        transcript (process_lines parse env2 st (complete_lines (concat cs)))"
    by (rule transcript_process_lines) simp
  with a b show ?thesis by simp
qed

text \<open>A stream of two events and a malformed line, cut inside a key and inside \<^verbatim>\<open>data:\<close>.\<close>

theorem C2_chunking_invariant_witness:
  "\<not> is_chunk RDone \<and>
   map_option (transcript \<circ> fst) (read_loop sample_parse sample_env (reader_of sample_stream RDone) 0 [] initial_state) =
     Some [(Assistant, Thinking (Some (JStr ''hm''))),
           (Tool, ToolResult (Some (JStr ''t1'')) (Some (JStr ''ok'')) None None)] \<and>
   map_option (transcript \<circ> fst) (read_loop sample_parse sample_env (reader_of [concat sample_stream] RDone) 0 [] initial_state) =
     Some [(Assistant, Thinking (Some (JStr ''hm''))),
           (Tool, ToolResult (Some (JStr ''t1'')) (Some (JStr ''ok'')) None None)]"
proof -
  have h: "\<not> is_chunk RDone" by simp
  have t: "map_option (transcript \<circ> fst) (read_loop sample_parse sample_env (reader_of sample_stream RDone) 0 [] initial_state) =
     Some [(Assistant, Thinking (Some (JStr ''hm''))),
           (Tool, ToolResult (Some (JStr ''t1'')) (Some (JStr ''ok'')) None None)]"
    by code_simp
  from C2_chunking_invariant [OF h, of sample_parse sample_env sample_stream initial_state sample_env] t h
  show ?thesis by auto
qed

text \<open>
  C3. A data line whose payload decodes to the done event carries a \<^verbatim>\<open>messages\<close> field,
  and processing the line leaves every part of the state as it was, except the
  conversation history, which becomes the carried value, whatever it held before.
\<close>

theorem C3_done_replaces_history:
  assumes "prefix ''data:'' line" and "trim (drop 5 line) \<noteq> []"
    and "parse (trim (drop 5 line)) = Some parsed"
    and "decode_event parsed = Inr (SSEDoneEvent d)"
  shows "\<exists>finalMessages. parsed = JObj d \<and> map_of d ''messages'' = Some finalMessages \<and>
           route_event env st (SSEDoneEvent d) = st\<lparr>chatHistory := Some finalMessages\<rparr> \<and>
           process_line parse env st line = st\<lparr>chatHistory := Some finalMessages\<rparr> \<and>
           chatHistory (process_line parse env st line) = Some finalMessages"
  using assms done_has_messages [OF assms(4)] data_not_event [OF assms(1)]
  by (auto simp: process_line_def handle_data_def Let_def)

text \<open>A history with a piecemeal entry is replaced by the list of the done event.\<close>

theorem C3_done_replaces_history_witness:
  \<open>chatHistory (process_line sample_parse sample_env
      (initial_state\<lparr>chatHistory := Some (JArr [userMessage ''hello'', JStr ''piecemeal''])\<rparr>)
      ''data: {"messages":[{"role":"assistant","content":"ok"}]}'') =
    Some (JArr [JObj [(''role'', JStr ''assistant''), (''content'', JStr ''ok'')]])\<close>
proof -
  let ?line = \<open>''data: {"messages":[{"role":"assistant","content":"ok"}]}''\<close>
  have 1: "prefix ''data:'' ?line" by simp
  have 2: "trim (drop 5 ?line) \<noteq> []" by code_simp
  have 3: "sample_parse (trim (drop 5 ?line)) = Some (JObj done_payload)" by code_simp
  have 4: "decode_event (JObj done_payload) = Inr (SSEDoneEvent done_payload)" by code_simp
  from C3_done_replaces_history [where parse = sample_parse and line = ?line
      and parsed = "JObj done_payload" and d = done_payload and env = sample_env
      and st = "initial_state\<lparr>chatHistory := Some (JArr [userMessage ''hello'', JStr ''piecemeal''])\<rparr>"]
    1 2 3 4
  show ?thesis by (auto simp: done_payload_def)
qed

text \<open>
  C4 (as amended). When the request is answered with a status outside 200 to 299,
  \<^verbatim>\<open>sendMessage\<close> adds two transcript entries, the user's text and then exactly one
  error entry whose message is \<^verbatim>\<open>HTTP error! status: \<close> followed by the status code;
  the exchange log is unchanged and the session is idle again. The conversation history is
  not what it was before the call: it is the previous history followed by the new user
  turn, which is stored before the request is made and is not taken back.
\<close>

theorem C4_http_error_status:
  assumes "spread (chatHistory st) = Some h"
    and "fetch (request_body config (JArr (h @ [userMessage text]))) = FetchResponse r"
    and "\<not> response_ok r"
  shows "\<exists>user_entry error_entry st'.
           sendMessage parse env config fetch st text = Some (Fulfilled, st') \<and>
           displayMessages st' = displayMessages st @ [user_entry, error_entry] \<and>
           msg_role user_entry = User \<and> msg_content user_entry = Text (Some (JStr text)) \<and>
           msg_role error_entry = Assistant \<and>
           msg_content error_entry =
             Error (Some (JStr (''HTTP error! status: '' @ decimal (status r)))) \<and>
           chatHistory st' = Some (JArr (h @ [userMessage text])) \<and>
           httpLogs st' = httpLogs st \<and> \<not> isStreaming st' \<and> abortController st' = None"
  using assms
  by (simp add: sendMessage_entered try_block_def catch_block_def finally_block_def
        enter_streaming_def addDisplayMessage_def)

text \<open>A first turn answered with status 500.\<close>

theorem C4_http_error_status_witness:
  "spread (chatHistory initial_state) = Some [] \<and>
   \<not> response_ok \<lparr>status = 500, body = Some (reader_of [] RDone)\<rparr> \<and>
   map_option (transcript \<circ> snd)
     (sendMessage sample_parse sample_env DEFAULT_CONFIG (answer_with server_error_500)
        initial_state ''take a screenshot'') =
     Some [(User, Text (Some (JStr ''take a screenshot''))),
           (Assistant, Error (Some (JStr ''HTTP error! status: 500'')))]"
proof -
  have 1: "spread (chatHistory initial_state) = Some []" by code_simp
  have 2: "answer_with server_error_500 (request_body DEFAULT_CONFIG (JArr ([] @ [userMessage ''take a screenshot''])))
      = FetchResponse \<lparr>status = 500, body = Some (reader_of [] RDone)\<rparr>"
    by (simp add: answer_with_def server_error_500_def)
  have 3: "\<not> response_ok \<lparr>status = 500, body = Some (reader_of [] RDone)\<rparr>"
    by (simp add: response_ok_def)
  have 4: "decimal 500 = ''500''" by code_simp
  have 5: "displayMessages initial_state = []" by (simp add: initial_state_def)
  from C4_http_error_status [where parse = sample_parse and env = sample_env
      and config = DEFAULT_CONFIG and fetch = "answer_with server_error_500"
      and st = initial_state and ?text = "''take a screenshot''" and h = "[]"
      and r = "\<lparr>status = 500, body = Some (reader_of [] RDone)\<rparr>", OF 1 2 3]
  obtain u e s where "sendMessage sample_parse sample_env DEFAULT_CONFIG (answer_with server_error_500)
        initial_state ''take a screenshot'' = Some (Fulfilled, s)"
    and "displayMessages s = displayMessages initial_state @ [u, e]"
    and "msg_role u = User" "msg_content u = Text (Some (JStr ''take a screenshot''))"
    and "msg_role e = Assistant"
    and "msg_content e = Error (Some (JStr (''HTTP error! status: '' @ decimal (status \<lparr>status = 500, body = Some (reader_of [] RDone)\<rparr>))))"
    by blast
  then show ?thesis using 1 3 by (simp add: transcript_def 4 5)
qed

text \<open>
  C4 as stated fails on the first turn of a session: after the status 500 the history
  holds the user turn, and it was empty before the call.
\<close>

theorem C4_counterexample:
  "\<not> response_ok \<lparr>status = 500, body = Some (reader_of [] RDone)\<rparr> \<and>
   chatHistory initial_state = Some (JArr []) \<and>
   map_option (chatHistory \<circ> snd)
     (sendMessage sample_parse sample_env DEFAULT_CONFIG (answer_with server_error_500)
        initial_state ''take a screenshot'') =
     Some (Some (JArr [JObj [(''role'', JStr ''user''), (''content'', JStr ''take a screenshot'')]]))"
  by (simp add: response_ok_def initial_state_def sendMessage_def spread_def try_block_def
        answer_with_def server_error_500_def catch_block_def finally_block_def
        enter_streaming_def addDisplayMessage_def userMessage_def)

text \<open>
  C5. When the stream is open and the read that ends it is rejected with an error named
  \<^verbatim>\<open>AbortError\<close>, \<^verbatim>\<open>sendMessage\<close> returns, and its transcript is the transcript as
  the chunks read so far left it, followed by exactly one entry: an assistant entry of
  the text variant with the literal text \<^verbatim>\<open>(stopped by user)\<close>. No error entry is added.
\<close>

theorem C5_abort_mid_stream:
  assumes "spread (chatHistory st) = Some h"
    and "fetch (request_body config (JArr (h @ [userMessage text]))) = FetchResponse r"
    and "response_ok r" and "body r = Some rd" and "ends_at rd n"
    and "rd n = RFault e" and "err_name e = ''AbortError''"
  shows "\<exists>stopped st'.
           sendMessage parse env config fetch st text = Some (Fulfilled, st') \<and>
           displayMessages st' =
             displayMessages (process_lines parse env (enter_streaming env st text h)
                                (complete_lines (concat (chunks_before rd n)))) @ [stopped] \<and>
           msg_role stopped = Assistant \<and>
           msg_content stopped = Text (Some (JStr ''(stopped by user)'')) \<and>
           \<not> isStreaming st' \<and> abortController st' = None"
proof -
  have "try_block parse env config fetch (JArr (h @ [userMessage text]))
          (enter_streaming env st text h) =
        Some (process_lines parse env (enter_streaming env st text h)
                (complete_lines (concat (chunks_before rd n))), Some e)"
    using try_block_stream [where fetch = fetch and config = config
        and uh = "JArr (h @ [userMessage text])" and r = r and rd = rd and n = n,
        OF assms(2-5)] assms(6)
    by simp
  then show ?thesis
    using assms(7)
    by (simp add: sendMessage_entered [OF assms(1)] catch_block_def finally_block_def
          addDisplayMessage_def)
qed

text \<open>A stream aborted after its second chunk, in the middle of a line.\<close>

theorem C5_abort_mid_stream_witness:
  "spread (chatHistory initial_state) = Some [] \<and>
   response_ok \<lparr>status = 200, body = Some (reader_of (take 2 sample_stream) (RFault AbortError))\<rparr> \<and>
   ends_at (reader_of (take 2 sample_stream) (RFault AbortError)) 2 \<and>
   reader_of (take 2 sample_stream) (RFault AbortError) 2 = RFault AbortError \<and>
   err_name AbortError = ''AbortError'' \<and>
   map_option (transcript \<circ> snd)
     (sendMessage sample_parse sample_env DEFAULT_CONFIG (answer_with aborted_stream)
        initial_state ''go'') =
     Some [(User, Text (Some (JStr ''go''))), (Assistant, Thinking (Some (JStr ''hm''))),
           (Assistant, Text (Some (JStr ''(stopped by user)'')))]"
proof -
  let ?rd = "reader_of (take 2 sample_stream) (RFault AbortError)"
  let ?r = "\<lparr>status = 200, body = Some ?rd\<rparr>"
  have 1: "spread (chatHistory initial_state) = Some []" by code_simp
  have 2: "answer_with aborted_stream (request_body DEFAULT_CONFIG (JArr ([] @ [userMessage ''go'']))) =
      FetchResponse ?r"
    by (simp add: answer_with_def aborted_stream_def)
  have 3: "response_ok ?r" by (simp add: response_ok_def)
  have 4: "body ?r = Some ?rd" by simp
  have 5: "ends_at ?rd 2" by code_simp
  have 6: "?rd 2 = RFault AbortError" by code_simp
  have 7: "err_name AbortError = ''AbortError''" by (simp add: AbortError_def)
  have mid: "transcript (process_lines sample_parse sample_env
        (enter_streaming sample_env initial_state ''go'' [])
        (complete_lines (concat (chunks_before ?rd 2)))) =
      [(User, Text (Some (JStr ''go''))), (Assistant, Thinking (Some (JStr ''hm'')))]"
    by code_simp
  from C5_abort_mid_stream [where parse = sample_parse and env = sample_env
      and config = DEFAULT_CONFIG and fetch = "answer_with aborted_stream"
      and st = initial_state and ?text = "''go''" and h = "[]" and r = ?r and rd = ?rd
      and n = 2 and e = AbortError, OF 1 2 3 4 5 6 7]
  obtain stopped s where
    a: "sendMessage sample_parse sample_env DEFAULT_CONFIG (answer_with aborted_stream)
        initial_state ''go'' = Some (Fulfilled, s)"
    and b: "displayMessages s =
       displayMessages (process_lines sample_parse sample_env
         (enter_streaming sample_env initial_state ''go'' [])
         (complete_lines (concat (chunks_before ?rd 2)))) @ [stopped]"
    and c: "msg_role stopped = Assistant"
       "msg_content stopped = Text (Some (JStr ''(stopped by user)''))"
    by blast
  have "transcript s = [(User, Text (Some (JStr ''go''))), (Assistant, Thinking (Some (JStr ''hm''))),
           (Assistant, Text (Some (JStr ''(stopped by user)'')))]"
    using mid b c by (simp add: transcript_def)
  with a 1 3 5 6 7 show ?thesis by simp
qed

text \<open>
  C6. Whenever \<^verbatim>\<open>sendMessage\<close> has entered its \<^verbatim>\<open>try\<close> block and returns, the busy flag
  is false and the cancellation handle is \<^verbatim>\<open>null\<close>; and it does return, on every answer
  of the network that settles: a rejected request (network error, abort), a status that
  is not 2xx, a missing body, a body that ends, a read that is rejected. The third part
  records the one way of leaving \<^verbatim>\<open>sendMessage\<close> that does not pass the \<^verbatim>\<open>try\<close>
  block: a stored history that cannot be iterated raises before it, and then the flag
  and the handle are as they were.
\<close>

theorem C6_always_back_to_idle:
  "(sendMessage parse env config fetch st text = Some (Fulfilled, st') \<longrightarrow>
      \<not> isStreaming st' \<and> abortController st' = None) \<and>
   (spread (chatHistory st) = Some h \<and>
    settles (fetch (request_body config (JArr (h @ [userMessage text])))) \<longrightarrow>
      (\<exists>st''. sendMessage parse env config fetch st text = Some (Fulfilled, st'') \<and>
             \<not> isStreaming st'' \<and> abortController st'' = None)) \<and>
   (sendMessage parse env config fetch st text = Some (Rejected f, st') \<longrightarrow>
      spread (chatHistory st) = None \<and> isStreaming st' = isStreaming st \<and>
      abortController st' = abortController st)"
proof -
  have 1: "\<not> isStreaming s \<and> abortController s = None"
    if "sendMessage parse env config fetch st text = Some (Fulfilled, s)" for s
    using that by (auto simp: sendMessage_def finally_block_def split: option.splits)
  have 2: "\<exists>st''. sendMessage parse env config fetch st text = Some (Fulfilled, st'') \<and>
             \<not> isStreaming st'' \<and> abortController st'' = None"
    if "spread (chatHistory st) = Some h"
      and "settles (fetch (request_body config (JArr (h @ [userMessage text]))))"
    using sendMessage_returns [where fetch = fetch and config = config and st = st and h = h
        and ?text = "text" and parse = parse and env = env, OF that] 1
    by blast
  have 3: "spread (chatHistory st) = None \<and> isStreaming st' = isStreaming st \<and>
      abortController st' = abortController st"
    if "sendMessage parse env config fetch st text = Some (Rejected f, st')"
    using that by (auto simp: sendMessage_def addDisplayMessage_def split: option.splits)
  from 1 2 3 show ?thesis by blast
qed

text \<open>A complete stream of three chunks; and a turn sent on a history that is \<^verbatim>\<open>null\<close>.\<close>

theorem C6_always_back_to_idle_witness:
  "spread (chatHistory initial_state) = Some [] \<and>
   settles (answer_with complete_stream (request_body DEFAULT_CONFIG (JArr ([] @ [userMessage ''go''])))) \<and>
   (\<exists>st''. sendMessage sample_parse sample_env DEFAULT_CONFIG (answer_with complete_stream)
             initial_state ''go'' = Some (Fulfilled, st'') \<and>
           \<not> isStreaming st'' \<and> abortController st'' = None) \<and>
   sendMessage sample_parse sample_env DEFAULT_CONFIG (answer_with complete_stream)
     (initial_state\<lparr>chatHistory := Some JNull\<rparr>) ''go'' =
     Some (Rejected TypeError,
           addDisplayMessage sample_env (initial_state\<lparr>chatHistory := Some JNull\<rparr>) User
             (Text (Some (JStr ''go'')))) \<and>
   spread (chatHistory (initial_state\<lparr>chatHistory := Some JNull\<rparr>)) = None \<and>
   \<not> isStreaming (addDisplayMessage sample_env (initial_state\<lparr>chatHistory := Some JNull\<rparr>) User
             (Text (Some (JStr ''go''))))"
proof -
  let ?bad = "initial_state\<lparr>chatHistory := Some JNull\<rparr>"
  have 1: "spread (chatHistory initial_state) = Some []" by code_simp
  have 2: "settles (answer_with complete_stream (request_body DEFAULT_CONFIG (JArr ([] @ [userMessage ''go'']))))"
    by (simp add: answer_with_def settles_complete_stream)
  have 3: "sendMessage sample_parse sample_env DEFAULT_CONFIG (answer_with complete_stream) ?bad ''go'' =
     Some (Rejected TypeError, addDisplayMessage sample_env ?bad User (Text (Some (JStr ''go''))))"
    by (simp add: sendMessage_def spread_def)
  have 4: "\<not> isStreaming ?bad" by (simp add: initial_state_def)
  from C6_always_back_to_idle [where parse = sample_parse and env = sample_env
      and config = DEFAULT_CONFIG and fetch = "answer_with complete_stream"
      and st = initial_state and ?text = "''go''" and h = "[]"] 1 2
  have a: "\<exists>st''. sendMessage sample_parse sample_env DEFAULT_CONFIG (answer_with complete_stream)
             initial_state ''go'' = Some (Fulfilled, st'') \<and>
           \<not> isStreaming st'' \<and> abortController st'' = None"
    by blast
  from C6_always_back_to_idle [where parse = sample_parse and env = sample_env
      and config = DEFAULT_CONFIG and fetch = "answer_with complete_stream"
      and st = ?bad and ?text = "''go''" and f = TypeError
      and st' = "addDisplayMessage sample_env ?bad User (Text (Some (JStr ''go'')))"] 3 4
  have b: "spread (chatHistory ?bad) = None \<and>
     \<not> isStreaming (addDisplayMessage sample_env ?bad User (Text (Some (JStr ''go''))))"
    by presburger
  from 1 2 3 a b show ?thesis by blast
qed

text \<open>
  C7. Adding a display message, routing an event, processing a line or a list of lines,
  the read loop and \<^verbatim>\<open>sendMessage\<close> all leave the transcript they started from as a
  prefix of the transcript they end with; adding an exchange-log entry and \<^verbatim>\<open>stop\<close>
  leave the transcript as it is; \<^verbatim>\<open>clearMessages\<close> makes it empty.
\<close>

theorem C7_transcript_append_only:
  "prefix (displayMessages st) (displayMessages (addDisplayMessage env st role c)) \<and>
   displayMessages (addHttpLog env st d) = displayMessages st \<and>
   prefix (displayMessages st) (displayMessages (route_event env st ev)) \<and>
   prefix (displayMessages st) (displayMessages (process_line parse env st l)) \<and>
   prefix (displayMessages st) (displayMessages (process_lines parse env st ls)) \<and>
   (read_loop parse env rd i buf st = Some (st1, x) \<longrightarrow>
      prefix (displayMessages st) (displayMessages st1)) \<and>
   (sendMessage parse env config fetch st text = Some (p, st2) \<longrightarrow>
      prefix (displayMessages st) (displayMessages st2)) \<and>
   displayMessages (stop st) = displayMessages st \<and>
   displayMessages (clearMessages st) = []"
  using prefix_route_event [of st env ev] prefix_process_line [of st parse env l]
    prefix_process_lines [of st parse env ls]
    prefix_read_loop_aux [of parse env rd i buf st "(st1, x)"]
    prefix_sendMessage [of parse env config fetch st "text" p st2]
  by (simp add: addDisplayMessage_def addHttpLog_def stop_def clearMessages_def split: option.splits)

text \<open>
  A session that already holds two entries: the read loop on the sample stream, a whole
  turn, one more entry, and the clear.
\<close>

theorem C7_transcript_append_only_witness:
  "displayMessages earlier_session \<noteq> [] \<and>
   read_loop sample_parse sample_env (reader_of sample_stream RDone) 0 [] earlier_session =
     Some (process_lines sample_parse sample_env earlier_session
             (complete_lines (concat sample_stream)), None) \<and>
   prefix (displayMessages earlier_session)
     (displayMessages (process_lines sample_parse sample_env earlier_session
                         (complete_lines (concat sample_stream)))) \<and>
   transcript (process_lines sample_parse sample_env earlier_session
                 (complete_lines (concat sample_stream))) =
     [(User, Text (Some (JStr ''hello''))), (Assistant, Text (Some (JStr ''hi there''))),
      (Assistant, Thinking (Some (JStr ''hm''))),
      (Tool, ToolResult (Some (JStr ''t1'')) (Some (JStr ''ok'')) None None)] \<and>
   (\<exists>st2. sendMessage sample_parse sample_env DEFAULT_CONFIG (answer_with complete_stream)
            earlier_session ''go'' = Some (Fulfilled, st2) \<and>
          prefix (displayMessages earlier_session) (displayMessages st2) \<and>
          transcript st2 =
            [(User, Text (Some (JStr ''hello''))), (Assistant, Text (Some (JStr ''hi there''))),
             (User, Text (Some (JStr ''go''))), (Assistant, Thinking (Some (JStr ''hm''))),
             (Tool, ToolResult (Some (JStr ''t1'')) (Some (JStr ''ok'')) None None)]) \<and>
   prefix (displayMessages earlier_session)
     (displayMessages (addDisplayMessage sample_env earlier_session Tool (Error None))) \<and>
   displayMessages (clearMessages earlier_session) = []"
proof -
  let ?st1 = "process_lines sample_parse sample_env earlier_session (complete_lines (concat sample_stream))"
  let ?h = "[userMessage ''hello'', JObj [(''role'', JStr ''assistant''), (''content'', JStr ''hi there'')]]"
  have 0: "displayMessages earlier_session \<noteq> []" by (simp add: earlier_session_def)
  have 1: "read_loop sample_parse sample_env (reader_of sample_stream RDone) 0 [] earlier_session =
      Some (?st1, None)"
    using read_loop_reader_of [of RDone sample_parse sample_env sample_stream earlier_session]
    by simp
  have t1: "transcript ?st1 =
     [(User, Text (Some (JStr ''hello''))), (Assistant, Text (Some (JStr ''hi there''))),
      (Assistant, Thinking (Some (JStr ''hm''))),
      (Tool, ToolResult (Some (JStr ''t1'')) (Some (JStr ''ok'')) None None)]"
    by code_simp
  have sp: "spread (chatHistory earlier_session) = Some ?h" by code_simp
  have e: "ends_at (reader_of sample_stream RDone) (length sample_stream)"
    by (rule ends_at_reader_of) simp
  have t: "try_block sample_parse sample_env DEFAULT_CONFIG (answer_with complete_stream)
        (JArr (?h @ [userMessage ''go''])) (enter_streaming sample_env earlier_session ''go'' ?h) =
      Some (process_lines sample_parse sample_env (enter_streaming sample_env earlier_session ''go'' ?h)
              (complete_lines (concat sample_stream)), None)"
    using try_block_stream [where fetch = "answer_with complete_stream" and config = DEFAULT_CONFIG
        and uh = "JArr (?h @ [userMessage ''go''])"
        and r = "\<lparr>status = 200, body = Some (reader_of sample_stream RDone)\<rparr>"
        and rd = "reader_of sample_stream RDone" and n = "length sample_stream"
        and parse = sample_parse and env = sample_env
        and st = "enter_streaming sample_env earlier_session ''go'' ?h"] e
    by (simp add: answer_with_def complete_stream_def response_ok_def chunks_before_reader_of
          reader_of_end)
  let ?st2 = "finally_block (catch_block sample_env
      (process_lines sample_parse sample_env (enter_streaming sample_env earlier_session ''go'' ?h)
              (complete_lines (concat sample_stream))) None)"
  have 2: "sendMessage sample_parse sample_env DEFAULT_CONFIG (answer_with complete_stream)
            earlier_session ''go'' = Some (Fulfilled, ?st2)"
    by (simp only: sendMessage_entered [OF sp] t) simp
  have t2: "transcript ?st2 =
            [(User, Text (Some (JStr ''hello''))), (Assistant, Text (Some (JStr ''hi there''))),
             (User, Text (Some (JStr ''go''))), (Assistant, Thinking (Some (JStr ''hm''))),
             (Tool, ToolResult (Some (JStr ''t1'')) (Some (JStr ''ok'')) None None)]"
    by code_simp
  note inst = C7_transcript_append_only [where parse = sample_parse and env = sample_env
      and rd = "reader_of sample_stream RDone" and i = 0 and buf = "[]" and st = earlier_session
      and ?st1.0 = ?st1 and x = None and config = DEFAULT_CONFIG
      and fetch = "answer_with complete_stream" and ?text = "''go''" and p = Fulfilled
      and ?st2.0 = ?st2 and role = Tool and c = "Error None"]
  from inst 1 have p1: "prefix (displayMessages earlier_session) (displayMessages ?st1)"
    by blast
  from inst 2 have p2: "prefix (displayMessages earlier_session) (displayMessages ?st2)"
    by blast
  from inst have p3: "prefix (displayMessages earlier_session)
     (displayMessages (addDisplayMessage sample_env earlier_session Tool (Error None)))"
    by blast
  from inst have p4: "displayMessages (clearMessages earlier_session) = []" by blast
  from 2 p2 t2 have ex: "\<exists>st2. sendMessage sample_parse sample_env DEFAULT_CONFIG (answer_with complete_stream)
            earlier_session ''go'' = Some (Fulfilled, st2) \<and>
          prefix (displayMessages earlier_session) (displayMessages st2) \<and>
          transcript st2 =
            [(User, Text (Some (JStr ''hello''))), (Assistant, Text (Some (JStr ''hi there''))),
             (User, Text (Some (JStr ''go''))), (Assistant, Thinking (Some (JStr ''hm''))),
             (Tool, ToolResult (Some (JStr ''t1'')) (Some (JStr ''ok'')) None None)]"
    by blast
  from 0 1 p1 t1 ex p3 p4 show ?thesis by blast
qed



text \<open>
  C9. With the handle \<^verbatim>\<open>null\<close>, \<^verbatim>\<open>stop\<close> returns the state unchanged (so no
  transcript entry, and nothing raised: \<open>stop\<close> is a total function of the state). The
  session is idle initially, after every \<^verbatim>\<open>sendMessage\<close> that passed its \<^verbatim>\<open>try\<close>
  block, however the stream ended, and after every \<^verbatim>\<open>sendMessage\<close> that started idle.
\<close>

theorem C9_stop_when_idle:
  "(abortController st = None \<longrightarrow> stop st = st) \<and>
   idle initial_state \<and>
   (sendMessage parse env config fetch st text = Some (Fulfilled, st') \<longrightarrow>
      idle st' \<and> stop st' = st') \<and>
   (idle st \<and> sendMessage parse env config fetch st text = Some (p, st') \<longrightarrow>
      idle st' \<and> stop st' = st')"
proof -
  have 1: "abortController s = None \<Longrightarrow> stop s = s" for s
    by (simp add: stop_def)
  have 2: "sendMessage parse env config fetch st text = Some (Fulfilled, st') \<Longrightarrow> idle st'"
    by (auto simp: sendMessage_def finally_block_def idle_def split: option.splits)
  have 3: "idle st \<Longrightarrow> sendMessage parse env config fetch st text = Some (p, st') \<Longrightarrow> idle st'"
    by (auto simp: sendMessage_def finally_block_def idle_def addDisplayMessage_def split: option.splits)
  have 4: "idle s \<Longrightarrow> stop s = s" for s
    using 1 by (simp add: idle_def)
  show ?thesis
    using 1 2 3 4 [of st'] by (auto simp: idle_def initial_state_def)
qed

text \<open>Initially, and after an aborted stream.\<close>

theorem C9_stop_when_idle_witness:
  "abortController initial_state = None \<and> stop initial_state = initial_state \<and>
   idle initial_state \<and>
   (\<exists>st'. sendMessage sample_parse sample_env DEFAULT_CONFIG (answer_with aborted_stream)
            initial_state ''go'' = Some (Fulfilled, st') \<and> idle st' \<and> stop st' = st')"
proof -
  have 1: "abortController initial_state = None" by (simp add: initial_state_def)
  have "spread (chatHistory initial_state) = Some []" by code_simp
  moreover have "settles (answer_with aborted_stream (request_body DEFAULT_CONFIG (JArr ([] @ [userMessage ''go'']))))"
  proof -
    have "ends_at (reader_of (take 2 sample_stream) (RFault AbortError)) (length (take 2 sample_stream))"
      by (rule ends_at_reader_of) simp
    then show ?thesis by (auto simp: settles_def answer_with_def aborted_stream_def)
  qed
  ultimately obtain st' where 2: "sendMessage sample_parse sample_env DEFAULT_CONFIG (answer_with aborted_stream)
            initial_state ''go'' = Some (Fulfilled, st')"
    using sendMessage_returns [where fetch = "answer_with aborted_stream" and config = DEFAULT_CONFIG
        and st = initial_state and h = "[]" and ?text = "''go''" and parse = sample_parse
        and env = sample_env]
    by blast
  from C9_stop_when_idle [where parse = sample_parse and env = sample_env
      and st = initial_state and config = DEFAULT_CONFIG
      and fetch = "answer_with aborted_stream" and ?text = "''go''" and st' = st'
      and p = Fulfilled] 1 2
  show ?thesis by blast
qed

text \<open>
  C10. In the request body, \<^verbatim>\<open>api_key\<close> is present exactly when the configured key is
  not the empty string, and then holds the key; \<^verbatim>\<open>thinking_budget\<close> is present exactly
  when thinking is enabled, and then holds the configured budget. This body is the one
  request \<^verbatim>\<open>sendMessage\<close> makes: two networks that answer it alike give the same run.
\<close>

theorem C10_request_optional_fields:
  "map_of (stringify_fields (request_literal config h)) ''api_key'' =
     (if apiKey config = [] then None else Some (JStr (apiKey config))) \<and>
   map_of (stringify_fields (request_literal config h)) ''thinking_budget'' =
     (if thinkingEnabled config then Some (JNum (thinkingBudget config)) else None) \<and>
   (has_key ''api_key'' (stringify_fields (request_literal config h)) \<longleftrightarrow> apiKey config \<noteq> []) \<and>
   (has_key ''thinking_budget'' (stringify_fields (request_literal config h)) \<longleftrightarrow> thinkingEnabled config) \<and>
   (spread (chatHistory st) = Some hs \<and>
    fetch (JObj (stringify_fields (request_literal config (JArr (hs @ [userMessage text]))))) =
    fetch' (JObj (stringify_fields (request_literal config (JArr (hs @ [userMessage text]))))) \<longrightarrow>
      sendMessage parse env config fetch st text = sendMessage parse env config fetch' st text)"
  by (simp add: request_literal_def has_key_def sendMessage_def try_block_def request_body_def)

text \<open>The default configuration, and one with a key and thinking enabled.\<close>

theorem C10_request_optional_fields_witness:
  "apiKey DEFAULT_CONFIG = [] \<and> \<not> thinkingEnabled DEFAULT_CONFIG \<and>
   \<not> has_key ''api_key'' (stringify_fields (request_literal DEFAULT_CONFIG (JArr []))) \<and>
   \<not> has_key ''thinking_budget'' (stringify_fields (request_literal DEFAULT_CONFIG (JArr []))) \<and>
   map_of (stringify_fields (request_literal
        (DEFAULT_CONFIG\<lparr>apiKey := ''sk-ant-1'', thinkingEnabled := True\<rparr>) (JArr []))) ''api_key'' =
     Some (JStr ''sk-ant-1'') \<and>
   map_of (stringify_fields (request_literal
        (DEFAULT_CONFIG\<lparr>apiKey := ''sk-ant-1'', thinkingEnabled := True\<rparr>) (JArr []))) ''thinking_budget'' =
     Some (JNum 8192) \<and>
   sendMessage sample_parse sample_env DEFAULT_CONFIG key_checking_server initial_state ''go'' =
   sendMessage sample_parse sample_env DEFAULT_CONFIG (answer_with unauthorized) initial_state ''go''"
proof -
  have 1: "apiKey DEFAULT_CONFIG = [] \<and> \<not> thinkingEnabled DEFAULT_CONFIG"
    by (simp add: DEFAULT_CONFIG_def)
  have 2: "spread (chatHistory initial_state) = Some []" by code_simp
  have 3: "key_checking_server (JObj (stringify_fields (request_literal DEFAULT_CONFIG (JArr ([] @ [userMessage ''go'']))))) =
        answer_with unauthorized (JObj (stringify_fields (request_literal DEFAULT_CONFIG (JArr ([] @ [userMessage ''go''])))))"
    by (simp add: key_checking_server_def answer_with_def request_literal_def has_key_def
          DEFAULT_CONFIG_def)
  have 4: "apiKey (DEFAULT_CONFIG\<lparr>apiKey := ''sk-ant-1'', thinkingEnabled := True\<rparr>) \<noteq> [] \<and>
     thinkingEnabled (DEFAULT_CONFIG\<lparr>apiKey := ''sk-ant-1'', thinkingEnabled := True\<rparr>) \<and>
     thinkingBudget (DEFAULT_CONFIG\<lparr>apiKey := ''sk-ant-1'', thinkingEnabled := True\<rparr>) = 8192"
    by (simp add: DEFAULT_CONFIG_def)
  from C10_request_optional_fields [where config = DEFAULT_CONFIG and h = "JArr []"
      and st = initial_state and hs = "[]" and ?text = "''go''" and fetch = key_checking_server
      and fetch' = "answer_with unauthorized" and parse = sample_parse and env = sample_env]
    C10_request_optional_fields [where config = "DEFAULT_CONFIG\<lparr>apiKey := ''sk-ant-1'', thinkingEnabled := True\<rparr>"
      and h = "JArr []"]
    1 2 3 4
  show ?thesis by simp
qed

end
